theory Spec2Isabelle
  imports Complex_Main "HOL-Library.Char_ord" "HOL-Library.List_Lexorder"
begin

section \<open>Strings\<close>

text \<open>
  Texts are Python \<open>str\<close> values, modelled as \<open>string\<close>. The model covers ASCII text:
  a character outside ASCII is neither a word character nor white space nor a letter
  here. The only non-ASCII characters of the program itself are the emoji of the quality
  labels, which are written as their UTF-8 bytes.
\<close>

definition is_upper :: "char \<Rightarrow> bool" where
  "is_upper c = (CHR ''A'' \<le> c \<and> c \<le> CHR ''Z'')"

definition is_lower :: "char \<Rightarrow> bool" where
  "is_lower c = (CHR ''a'' \<le> c \<and> c \<le> CHR ''z'')"

definition is_digit :: "char \<Rightarrow> bool" where
  "is_digit c = (CHR ''0'' \<le> c \<and> c \<le> CHR ''9'')"

definition is_alpha :: "char \<Rightarrow> bool" where
  "is_alpha c = (is_upper c \<or> is_lower c)"

text \<open>The class \<open>\w\<close> of Python's \<open>re\<close>: letters, digits and the underscore.\<close>

definition is_word :: "char \<Rightarrow> bool" where
  "is_word c = (is_alpha c \<or> is_digit c \<or> c = CHR ''_'')"

text \<open>The class \<open>\s\<close>: space, tab, newline, vertical tab, form feed, carriage return
  and the four separators 0x1C to 0x1F.\<close>

definition is_space :: "char \<Rightarrow> bool" where
  "is_space c = (c = CHR '' '' \<or> (CHR 0x09 \<le> c \<and> c \<le> CHR 0x0D) \<or> (CHR 0x1C \<le> c \<and> c \<le> CHR 0x1F))"

definition lower_char :: "char \<Rightarrow> char" where
  "lower_char c = (if is_upper c then char_of (of_char c + (32::nat)) else c)"

definition upper_char :: "char \<Rightarrow> char" where
  "upper_char c = (if is_lower c then char_of (of_char c - (32::nat)) else c)"

text \<open>\<open>str.lower()\<close>\<close>

definition lower :: "string \<Rightarrow> string" where
  "lower s = map lower_char s"

text \<open>
  \<open>str.title()\<close>: a letter that follows a letter is lowercased, any other letter is
  uppercased; the flag is Python's \<open>previous_is_cased\<close>.
\<close>

fun title_from :: "bool \<Rightarrow> string \<Rightarrow> string" where
  "title_from prev [] = []"
| "title_from prev (c # cs) =
     (if is_alpha c then (if prev then lower_char c else upper_char c) # title_from True cs
      else c # title_from False cs)"

definition title :: "string \<Rightarrow> string" where
  "title s = title_from False s"

text \<open>\<open>str.strip()\<close> and \<open>sep.join(parts)\<close>\<close>

definition strip :: "string \<Rightarrow> string" where
  "strip s = rev (dropWhile is_space (rev (dropWhile is_space s)))"

fun join :: "string \<Rightarrow> string list \<Rightarrow> string" where
  "join sep [] = []"
| "join sep [x] = x"
| "join sep (x # y # ys) = x @ sep @ join sep (y # ys)"

section \<open>Regular expressions of the \<open>re\<close> module\<close>

text \<open>
  The patterns of the program use literals, character classes, greedy repetition of a
  class, optional parts, alternation and the word boundary \<open>\b\<close>. A pattern is a value
  of \<open>regex\<close>; \<open>ends r t i\<close> lists the positions where a match of \<open>r\<close> that starts at
  position \<open>i\<close> of \<open>t\<close> can end, in the order in which the backtracking matcher tries
  them (greedy repetition: longest first; alternation: left first).
\<close>

datatype atom = Ch char | Span char char | WordCh | DigitCh | SpaceCh

datatype cls = In "atom list" | NotIn "atom list"

datatype regex =
    Eps
  | Lit string
  | Cls cls
  | Many nat cls
  | Opt regex
  | Then regex regex
  | Alt regex regex
  | WordB

fun atom_has :: "atom \<Rightarrow> char \<Rightarrow> bool" where
  "atom_has (Ch a) c = (c = a)"
| "atom_has (Span a b) c = (a \<le> c \<and> c \<le> b)"
| "atom_has WordCh c = is_word c"
| "atom_has DigitCh c = is_digit c"
| "atom_has SpaceCh c = is_space c"

fun cls_has :: "cls \<Rightarrow> char \<Rightarrow> bool" where
  "cls_has (In as) c = (\<exists>a \<in> set as. atom_has a c)"
| "cls_has (NotIn as) c = (\<not> (\<exists>a \<in> set as. atom_has a c))"

text \<open>\<open>\b\<close> holds at \<open>i\<close> when exactly one of the characters before and after \<open>i\<close> is a
  word character (the ends of the text count as non-word).\<close>

definition word_boundary :: "string \<Rightarrow> nat \<Rightarrow> bool" where
  "word_boundary t i =
     ((0 < i \<and> i \<le> length t \<and> is_word (t ! (i - 1))) \<noteq> (i < length t \<and> is_word (t ! i)))"

fun ends :: "regex \<Rightarrow> string \<Rightarrow> nat \<Rightarrow> nat list" where
  "ends Eps t i = [i]"
| "ends (Lit s) t i = (if take (length s) (drop i t) = s then [i + length s] else [])"
| "ends (Cls k) t i = (if i < length t \<and> cls_has k (t ! i) then [i + 1] else [])"
| "ends (Many n k) t i =
     (let run = length (takeWhile (cls_has k) (drop i t))
      in rev (map (\<lambda>m. i + m) [n ..< run + 1]))"
| "ends (Opt r) t i = ends r t i @ [i]"
| "ends (Then r s) t i = concat (map (ends s t) (ends r t i))"
| "ends (Alt r s) t i = ends r t i @ ends s t i"
| "ends WordB t i = (if word_boundary t i then [i] else [])"

text \<open>The match the backtracking matcher returns at a start position: the first one.\<close>

definition match_at :: "regex \<Rightarrow> string \<Rightarrow> nat \<Rightarrow> nat option" where
  "match_at r t i = (case ends r t i of [] \<Rightarrow> None | j # _ \<Rightarrow> Some j)"

text \<open>\<open>re.search(r, t)\<close> is truthy when a match starts at some position of \<open>t\<close>.\<close>

definition re_search :: "regex \<Rightarrow> string \<Rightarrow> bool" where
  "re_search r t = (\<exists>i \<in> set [0 ..< length t + 1]. ends r t i \<noteq> [])"

text \<open>
  \<open>re.sub(r, repl, t)\<close> and \<open>re.findall(r, t)\<close> for patterns that match no empty string
  (all patterns used with them): scan from the left, take the first match at the leftmost
  position that has one, continue after it.
\<close>

function sub_from :: "regex \<Rightarrow> string \<Rightarrow> string \<Rightarrow> nat \<Rightarrow> string" where
  "sub_from r repl t i =
     (if length t \<le> i then []
      else (case match_at r t i of
              Some j \<Rightarrow> if i < j then repl @ sub_from r repl t j
                        else t ! i # sub_from r repl t (i + 1)
            | None \<Rightarrow> t ! i # sub_from r repl t (i + 1)))"
  by pat_completeness auto
termination
  by (relation "measure (\<lambda>(r, repl, t, i). length t - i)") auto

definition re_sub :: "regex \<Rightarrow> string \<Rightarrow> string \<Rightarrow> string" where
  "re_sub r repl t = sub_from r repl t 0"

function findall_from :: "regex \<Rightarrow> string \<Rightarrow> nat \<Rightarrow> string list" where
  "findall_from r t i =
     (if length t \<le> i then []
      else (case match_at r t i of
              Some j \<Rightarrow> if i < j then take (j - i) (drop i t) # findall_from r t j
                        else findall_from r t (i + 1)
            | None \<Rightarrow> findall_from r t (i + 1)))"
  by pat_completeness auto
termination
  by (relation "measure (\<lambda>(r, t, i). length t - i)") auto

definition re_findall :: "regex \<Rightarrow> string \<Rightarrow> string list" where
  "re_findall r t = findall_from r t 0"

definition seq :: "regex list \<Rightarrow> regex" where
  "seq rs = foldr Then rs Eps"

section \<open>The module skill_extractor\<close>

text \<open>\<open>SKILL_CATEGORIES\<close>: category and skill keywords, in the order of the dictionary.\<close>

definition SKILL_CATEGORIES :: "(string \<times> string list) list" where
  "SKILL_CATEGORIES =
    [(''Programming Languages'',
        [''python'', ''java'', ''javascript'', ''typescript'', ''c++'', ''c#'', ''r'', ''go'',
         ''rust'', ''scala'', ''kotlin'', ''swift'', ''php'', ''ruby'', ''matlab'']),
     (''Web Development'',
        [''html'', ''css'', ''react'', ''angular'', ''vue'', ''node'', ''django'', ''flask'',
         ''fastapi'', ''bootstrap'', ''tailwind'', ''jquery'', ''rest api'', ''graphql'']),
     (''Data Science & ML'',
        [''machine learning'', ''deep learning'', ''nlp'', ''natural language processing'',
         ''tensorflow'', ''keras'', ''pytorch'', ''scikit-learn'', ''sklearn'', ''xgboost'',
         ''pandas'', ''numpy'', ''scipy'', ''data science'', ''computer vision'', ''bert'',
         ''transformer'', ''neural network'', ''reinforcement learning'']),
     (''Databases'',
        [''sql'', ''mysql'', ''postgresql'', ''mongodb'', ''redis'', ''sqlite'', ''oracle'',
         ''cassandra'', ''elasticsearch'', ''nosql'', ''firebase'']),
     (''Cloud & DevOps'',
        [''aws'', ''azure'', ''gcp'', ''docker'', ''kubernetes'', ''ci/cd'', ''jenkins'',
         ''terraform'', ''ansible'', ''linux'', ''git'', ''github'', ''gitlab'', ''devops'']),
     (''Data Analytics & BI'',
        [''tableau'', ''power bi'', ''excel'', ''looker'', ''data visualization'',
         ''matplotlib'', ''seaborn'', ''plotly'', ''statistics'', ''data analysis'']),
     (''Soft Skills'',
        [''communication'', ''leadership'', ''teamwork'', ''problem solving'',
         ''critical thinking'', ''project management'', ''agile'', ''scrum'',
         ''time management'', ''collaboration''])]"

definition ALL_SKILLS :: "string list" where
  "ALL_SKILLS = concat (map snd SKILL_CATEGORIES)"

text \<open>The pattern \<open>r'\b' + re.escape(skill) + r'\b'\<close>: the escaped keyword is a literal.\<close>

definition skill_pattern :: "string \<Rightarrow> regex" where
  "skill_pattern skill = seq [WordB, Lit skill, WordB]"

text \<open>\<open>sorted(set(xs))\<close> on strings: duplicates removed, ascending by code point.\<close>

definition sorted_set :: "string list \<Rightarrow> string list" where
  "sorted_set xs = sort (remdups xs)"

definition extract_skills :: "string \<Rightarrow> string list" where
  "extract_skills text =
     (if text = [] then []
      else (let text_lower = lower text;
                found_skills = map title (filter (\<lambda>skill. re_search (skill_pattern skill) text_lower) ALL_SKILLS)
            in sorted_set found_skills))"

text \<open>\<open>get_quality_label\<close>; the labels begin with an emoji (UTF-8 bytes) and a space.\<close>

definition get_quality_label :: "real \<Rightarrow> string" where
  "get_quality_label score =
     (if score \<ge> 8.0 then [CHR 0xF0, CHR 0x9F, CHR 0x8C, CHR 0x9F] @ '' Excellent''
      else if score \<ge> 6.0 then [CHR 0xE2, CHR 0x9C, CHR 0x85] @ '' Good''
      else if score \<ge> 4.0 then [CHR 0xE2, CHR 0x9A, CHR 0xA0, CHR 0xEF, CHR 0xB8, CHR 0x8F] @ '' Average''
      else [CHR 0xE2, CHR 0x9D, CHR 0x8C] @ '' Needs Work'')"

text \<open>
  Floats are modelled as reals. \<open>round(x, n)\<close> and \<open>np.round(x, n)\<close> round to \<open>n\<close>
  decimals, a tie going to the even neighbour.
\<close>

definition rint :: "real \<Rightarrow> int" where
  "rint x =
     (let f = \<lfloor>x\<rfloor>; d = x - of_int f
      in if d < 1 / 2 then f else if 1 / 2 < d then f + 1 else if even f then f else f + 1)"

definition py_round :: "real \<Rightarrow> nat \<Rightarrow> real" where
  "py_round x n = of_int (rint (x * 10 ^ n)) / 10 ^ n"

text \<open>\<open>QUALITY_CHECKS\<close>: section, weight and detection patterns, in dictionary order.\<close>

definition word_pattern :: "string \<Rightarrow> regex" where
  "word_pattern w = seq [WordB, Lit w, WordB]"

definition QUALITY_CHECKS :: "(string \<times> real \<times> regex list) list" where
  "QUALITY_CHECKS =
    [(''Contact Information'', 2.0,
        [seq [Many 1 (In [WordCh, Ch CHR ''.'', Ch CHR ''-'']), Lit ''@'',
              Many 1 (In [WordCh, Ch CHR ''.'', Ch CHR ''-'']), Lit ''.'', Many 1 (In [WordCh])],
         seq [Opt (Lit ''+''), Cls (In [DigitCh]),
              Many 7 (In [DigitCh, SpaceCh, Ch CHR ''-'', Ch CHR ''('', Ch CHR '')'', Ch CHR ''.'']),
              Cls (In [DigitCh])]]),
     (''Skills Section'', 2.0,
        [seq [WordB, Lit ''skill'', Opt (Lit ''s''), WordB],
         word_pattern ''technical skills'',
         word_pattern ''core competencies'',
         word_pattern ''proficiencies'']),
     (''Education'', 2.0,
        [word_pattern ''education'', word_pattern ''degree'', word_pattern ''bachelor'',
         word_pattern ''master'', word_pattern ''phd'', word_pattern ''university'',
         word_pattern ''college'']),
     (''Work Experience'', 2.0,
        [word_pattern ''experience'', word_pattern ''work history'', word_pattern ''employment'',
         word_pattern ''job'', word_pattern ''intern'', word_pattern ''position'']),
     (''Summary / Objective'', 1.0,
        [word_pattern ''summary'', word_pattern ''objective'', word_pattern ''profile'',
         word_pattern ''about me'']),
     (''Projects / Certifications'', 1.0,
        [word_pattern ''project'', seq [WordB, Lit ''certif''], word_pattern ''achievement'',
         word_pattern ''award''])]"

record quality =
  score :: real
  breakdown :: "(string \<times> bool \<times> real) list"
  feedback :: "string list"

text \<open>\<open>any(re.search(pattern, text_lower) for pattern in config['patterns'])\<close>\<close>

definition section_found :: "regex list \<Rightarrow> string \<Rightarrow> bool" where
  "section_found patterns text_lower = (\<exists>pattern \<in> set patterns. re_search pattern text_lower)"

definition add_section_message :: "string \<Rightarrow> string" where
  "add_section_message section = ''Add a '' @ [CHR 0x27] @ section @ [CHR 0x27] @ '' section to improve your resume score.''"

text \<open>The loop over \<open>QUALITY_CHECKS.items()\<close>; the accumulator is
  \<open>(earned_score, breakdown, feedback)\<close>.\<close>

fun quality_loop ::
  "(string \<times> real \<times> regex list) list \<Rightarrow> string \<Rightarrow> real \<times> (string \<times> bool \<times> real) list \<times> string list
    \<Rightarrow> real \<times> (string \<times> bool \<times> real) list \<times> string list" where
  "quality_loop [] text_lower acc = acc"
| "quality_loop ((section, weight, patterns) # rest) text_lower (earned_score, bd, fb) =
     (let found = section_found patterns text_lower
      in quality_loop rest text_lower
           (if found then earned_score + weight else earned_score,
            bd @ [(section, found, weight)],
            if found then fb else fb @ [add_section_message section]))"

definition analyze_resume_quality :: "string \<Rightarrow> quality" where
  "analyze_resume_quality txt =
     (if txt = [] then \<lparr>score = 0.0, breakdown = [], feedback = [''No text found in resume.'']\<rparr>
      else (let text_lower = lower txt;
                total_weight = sum_list (map (\<lambda>(section, weight, patterns). weight) QUALITY_CHECKS);
                (earned_score, bd, fb) = quality_loop QUALITY_CHECKS text_lower (0.0, [], []);
                final_score = py_round ((earned_score / total_weight) * 10) 1
            in \<lparr>score = final_score, breakdown = bd, feedback = fb\<rparr>))"

section \<open>The module preprocessing\<close>

text \<open>
  \<open>clean_text\<close> asks NLTK for the English stop words and for \<open>word_tokenize\<close>; both are
  data and code outside the program. They are the argument \<open>nltk\<close>: \<open>None\<close> when NLTK
  raises (the \<open>except\<close> branch), otherwise the stop words and the tokenizer.
\<close>

record nltk_data =
  stop_words :: "string list"
  word_tokenize :: "string \<Rightarrow> string list"

definition not_space :: cls where
  "not_space = NotIn [SpaceCh]"

definition url_pattern :: regex where
  "url_pattern = Alt (seq [Lit ''http'', Many 1 not_space])
                   (Alt (seq [Lit ''www'', Many 1 not_space]) (seq [Lit ''https'', Many 1 not_space]))"

definition email_pattern :: regex where
  "email_pattern = seq [Many 1 not_space, Lit ''@'', Many 1 not_space]"

definition special_pattern :: regex where
  "special_pattern =
     Cls (NotIn [Span CHR ''a'' CHR ''z'', Span CHR ''0'' CHR ''9'', SpaceCh,
                 Ch CHR ''+'', Ch CHR ''-'', Ch CHR ''#''])"

definition spaces_pattern :: regex where
  "spaces_pattern = Many 1 (In [SpaceCh])"

definition clean_text :: "nltk_data option \<Rightarrow> string \<Rightarrow> string" where
  "clean_text nltk txt =
     (if txt = [] then []
      else (let t1 = lower txt;
                t2 = re_sub url_pattern [] t1;
                t3 = re_sub email_pattern [] t2;
                t4 = re_sub special_pattern '' '' t3;
                t5 = strip (re_sub spaces_pattern '' '' t4)
            in (case nltk of
                  Some d \<Rightarrow>
                    join '' '' (filter (\<lambda>token. token \<notin> set (stop_words d) \<and> length token > 1)
                                  (word_tokenize d t5))
                | None \<Rightarrow> strip (re_sub spaces_pattern '' '' t5))))"

section \<open>The libraries: scikit-learn and pandas\<close>

text \<open>
  \<open>TfidfVectorizer\<close>, \<open>cosine_similarity\<close> and \<open>DataFrame\<close> are library code that the
  program calls. Their behaviour is modelled as the libraries document it, in exact real
  arithmetic. The numeric weighting of the fitted vectorizer (term counts, logarithmic
  term frequency, inverse document frequency, the cap of 8000 features, normalisation)
  is the argument \<open>tfidf\<close>: \<open>tfidf documents d\<close> is the row of weights of document \<open>d\<close>
  in the matrix fitted on \<open>documents\<close>.
\<close>

datatype py_error = ValueError | IndexError

type_synonym vector = "real list"

type_synonym vectorizer = "string list \<Rightarrow> string \<Rightarrow> vector"

text \<open>The default token pattern \<open>(?u)\b\w\w+\b\<close> and the analyzer for
  \<open>ngram_range = (1, 2)\<close>: the tokens, then the pairs of neighbouring tokens.\<close>

definition token_pattern :: regex where
  "token_pattern = seq [WordB, Cls (In [WordCh]), Many 1 (In [WordCh]), WordB]"

definition analyzer :: "string \<Rightarrow> string list" where
  "analyzer doc =
     (let tokens = re_findall token_pattern (lower doc)
      in tokens @ map (\<lambda>(a, b). a @ '' '' @ b) (zip tokens (tl tokens)))"

text \<open>\<open>fit_transform\<close> raises \<open>ValueError\<close> (empty vocabulary) when no document yields
  a term; otherwise the matrix has one row for each document.\<close>

definition build_tfidf_matrix :: "vectorizer \<Rightarrow> string list \<Rightarrow> py_error + vector list" where
  "build_tfidf_matrix tfidf documents =
     (if concat (map analyzer documents) = [] then Inl ValueError
      else Inr (map (tfidf documents) documents))"

definition dot :: "vector \<Rightarrow> vector \<Rightarrow> real" where
  "dot u v = sum_list (map (\<lambda>(a, b). a * b) (zip u v))"

text \<open>\<open>normalize\<close> divides a row by its Euclidean norm and leaves a row of norm zero
  as it is.\<close>

definition normalize_l2 :: "vector \<Rightarrow> vector" where
  "normalize_l2 v =
     (let norm = sqrt (sum_list (map (\<lambda>a. a * a) v))
      in if norm = 0 then v else map (\<lambda>a. a / norm) v)"

definition cosine :: "vector \<Rightarrow> vector \<Rightarrow> real" where
  "cosine x y = dot (normalize_l2 x) (normalize_l2 y)"

text \<open>\<open>cosine_similarity(X, Y)\<close>: both arguments are validated to have at least one row
  (\<open>ValueError\<close> otherwise); entry \<open>(i, j)\<close> is the dot product of the normalised rows
  \<open>i\<close> of \<open>X\<close> and \<open>j\<close> of \<open>Y\<close>.\<close>

definition cosine_similarity :: "vector list \<Rightarrow> vector list \<Rightarrow> py_error + real list list" where
  "cosine_similarity X Y =
     (if X = [] \<or> Y = [] then Inl ValueError
      else Inr (map (\<lambda>x. map (\<lambda>y. cosine x y) Y) X))"

text \<open>A data frame is the list of its rows, each with its index label.\<close>

type_synonym 'r frame = "(nat \<times> 'r) list"

text \<open>\<open>pd.DataFrame(columns)\<close> gives the rows the labels \<open>0, 1, ...\<close>.\<close>

definition DataFrame :: "'r list \<Rightarrow> 'r frame" where
  "DataFrame rows = zip [0 ..< length rows] rows"

text \<open>\<open>reset_index(drop=True)\<close>\<close>

definition reset_index :: "'r frame \<Rightarrow> 'r frame" where
  "reset_index df = zip [0 ..< length df] (map snd df)"

text \<open>\<open>df.head(n)\<close> is \<open>df.iloc[:n]\<close>: a negative \<open>n\<close> counts from the end.\<close>

definition head :: "int \<Rightarrow> 'r frame \<Rightarrow> 'r frame" where
  "head n df = (if 0 \<le> n then take (nat n) df else take (length df - nat (- n)) df)"

section \<open>The module ranking_model\<close>

record resume =
  name :: string
  "text" :: string

record candidate =
  Candidate_Name :: string
  Similarity_Score :: real
  Extracted_Skills :: string
  Skill_Count :: nat
  Quality_Score :: real
  Quality_Label :: string
  skills_list :: "string list"
  quality_detail :: quality

text \<open>A row of the result: the columns of \<open>candidate\<close> and the inserted column \<open>Rank\<close>.\<close>

record ranked =
  Rank :: nat
  columns :: candidate


definition compute_cosine_similarity :: "vector list \<Rightarrow> vector list \<Rightarrow> py_error + real list" where
  "compute_cosine_similarity jd_vector resume_vectors =
     (case cosine_similarity jd_vector resume_vectors of
        Inl e \<Rightarrow> Inl e
      | Inr K \<Rightarrow> (case K of [] \<Rightarrow> Inl IndexError | scores # _ \<Rightarrow> Inr scores))"

text \<open>
  \<open>sort_values(by = ['Similarity Score', 'Quality Score'], ascending = [False, False])\<close>
  sorts on several keys with a stable sort: \<open>goes_before a b\<close> says that the keys of
  \<open>a\<close> come strictly first; rows with equal keys keep their order. The rows keep their
  index labels.
\<close>

definition goes_before :: "candidate \<Rightarrow> candidate \<Rightarrow> bool" where
  "goes_before a b =
     (Similarity_Score a > Similarity_Score b \<or>
      (Similarity_Score a = Similarity_Score b \<and> Quality_Score a > Quality_Score b))"

fun insert_stable :: "nat \<times> candidate \<Rightarrow> candidate frame \<Rightarrow> candidate frame" where
  "insert_stable x [] = [x]"
| "insert_stable x (y # ys) =
     (if goes_before (snd y) (snd x) then y # insert_stable x ys else x # y # ys)"

definition sort_values :: "candidate frame \<Rightarrow> candidate frame" where
  "sort_values df = foldr insert_stable df []"

text \<open>\<open>results_df.insert(0, 'Rank', range(1, len(results_df) + 1))\<close>\<close>

definition insert_Rank :: "candidate frame \<Rightarrow> ranked frame" where
  "insert_Rank df =
     map (\<lambda>(k, (i, r)). (i, \<lparr>Rank = k, columns = r\<rparr>)) (zip [1 ..< length df + 1] df)"

text \<open>The columns of step 8 as rows; pandas raises \<open>ValueError\<close> when the columns differ
  in length.\<close>

definition results_rows ::
  "string list \<Rightarrow> real list \<Rightarrow> string list \<Rightarrow> string list list \<Rightarrow> quality list
    \<Rightarrow> py_error + candidate list" where
  "results_rows candidate_names similarity_scores skills_str all_skills quality_results =
     (if length similarity_scores \<noteq> length candidate_names then Inl ValueError
      else Inr (map (\<lambda>i. \<lparr>Candidate_Name = candidate_names ! i,
                            Similarity_Score = py_round (similarity_scores ! i) 4,
                            Extracted_Skills = skills_str ! i,
                            Skill_Count = length (all_skills ! i),
                            Quality_Score = score (quality_results ! i),
                            Quality_Label = get_quality_label (score (quality_results ! i)),
                            skills_list = all_skills ! i,
                            quality_detail = quality_results ! i\<rparr>)
                  [0 ..< length candidate_names]))"

text \<open>Steps 1 to 5 of \<open>rank_candidates\<close>: the similarity of each resume to the job
  description.\<close>

definition similarity_scores_of ::
  "nltk_data option \<Rightarrow> vectorizer \<Rightarrow> string \<Rightarrow> resume list \<Rightarrow> py_error + real list" where
  "similarity_scores_of nltk tfidf job_description resumes =
     (let cleaned_jd = clean_text nltk job_description;
          cleaned_resumes = map (\<lambda>r. clean_text nltk (text r)) resumes;
          corpus = cleaned_jd # cleaned_resumes
      in (case build_tfidf_matrix tfidf corpus of
            Inl e \<Rightarrow> Inl e
          | Inr tfidf_matrix \<Rightarrow>
              (let jd_vector = take 1 tfidf_matrix;
                   resume_vectors = drop 1 tfidf_matrix
               in compute_cosine_similarity jd_vector resume_vectors)))"

text \<open>Steps 6 to 8: the unsorted results frame.\<close>

definition results_frame :: "resume list \<Rightarrow> real list \<Rightarrow> py_error + candidate frame" where
  "results_frame resumes similarity_scores =
     (let candidate_names = map name resumes;
          raw_resume_texts = map text resumes;
          all_skills = map extract_skills raw_resume_texts;
          skills_str = map (\<lambda>skills. if skills \<noteq> [] then join '', '' skills else ''None detected'')
                         all_skills;
          quality_results = map analyze_resume_quality raw_resume_texts
      in (case results_rows candidate_names similarity_scores skills_str all_skills quality_results of
            Inl e \<Rightarrow> Inl e
          | Inr rows \<Rightarrow> Inr (DataFrame rows)))"

definition rank_candidates ::
  "nltk_data option \<Rightarrow> vectorizer \<Rightarrow> string \<Rightarrow> resume list \<Rightarrow> py_error + ranked frame" where
  "rank_candidates nltk tfidf job_description resumes =
     (case similarity_scores_of nltk tfidf job_description resumes of
        Inl e \<Rightarrow> Inl e
      | Inr similarity_scores \<Rightarrow>
          (case results_frame resumes similarity_scores of
             Inl e \<Rightarrow> Inl e
           | Inr results_df \<Rightarrow> Inr (insert_Rank (reset_index (sort_values results_df)))))"



definition get_top_recommendations :: "ranked frame \<Rightarrow> int \<Rightarrow> ranked frame" where
  "get_top_recommendations results_df top_n = head top_n results_df"

section \<open>Notions used to state the properties\<close>

text \<open>The corpus of \<open>rank_candidates\<close> and the corpus of \<open>detect_duplicates\<close>.\<close>

definition ranking_corpus :: "nltk_data option \<Rightarrow> string \<Rightarrow> resume list \<Rightarrow> string list" where
  "ranking_corpus nltk job_description resumes =
     clean_text nltk job_description # map (\<lambda>r. clean_text nltk (text r)) resumes"


text \<open>A corpus has a vocabulary when some document yields a term.\<close>

definition has_vocabulary :: "string list \<Rightarrow> bool" where
  "has_vocabulary documents = (concat (map analyzer documents) \<noteq> [])"




section \<open>Data for the closed examples\<close>

text \<open>A vectorizer for the examples: the weights of three documents over two terms. The
  second row has norm one and cosine \<open>25276 / 28085 = 0.89998...\<close> with the first.\<close>

definition example_tfidf :: vectorizer where
  "example_tfidf documents d =
     (if d = ''alpha'' then [1, 0]
      else if d = ''beta'' then [25276 / 28085, 12243 / 28085]
      else [0, 0])"

definition example_resumes :: "resume list" where
  "example_resumes =
     [\<lparr>name = ''Ann'', text = ''beta''\<rparr>, \<lparr>name = ''Bob'', text = ''alpha''\<rparr>,
      \<lparr>name = ''Cy'', text = ''beta''\<rparr>, \<lparr>name = ''Dee'', text = ''''\<rparr>]"

definition example_row :: "nat \<Rightarrow> string \<Rightarrow> real \<Rightarrow> nat \<times> ranked" where
  "example_row k nm s =
     (k - 1,
      \<lparr>Rank = k,
       columns = \<lparr>Candidate_Name = nm, Similarity_Score = s,
                  Extracted_Skills = ''None detected'', Skill_Count = 0,
                  Quality_Score = 0, Quality_Label = get_quality_label 0,
                  skills_list = [], quality_detail = analyze_resume_quality ''gamma''\<rparr>\<rparr>)"

definition example_ranked :: "ranked frame" where
  "example_ranked = [example_row 1 ''Bob'' 1, example_row 2 ''Ann'' 0.9, example_row 3 ''Cy'' 0.9]"

section \<open>Properties of skill_extractor\<close>

lemma quality_loop_eq:
  "quality_loop cs low (e, bd, fb) =
     (e + sum_list (map (\<lambda>(s, w, ps). if section_found ps low then w else 0) cs),
      bd @ map (\<lambda>(s, w, ps). (s, section_found ps low, w)) cs,
      fb @ map (\<lambda>(s, w, ps). add_section_message s)
             (filter (\<lambda>(s, w, ps). \<not> section_found ps low) cs))"
  by (induction cs arbitrary: e bd fb) (auto simp: Let_def)

lemma earned_bounds:
  "(\<forall>(s, w, ps) \<in> set cs. 0 \<le> (w::real)) \<Longrightarrow>
   0 \<le> sum_list (map (\<lambda>(s, w, ps). if P ps then w else 0) cs) \<and>
   sum_list (map (\<lambda>(s, w, ps). if P ps then w else 0) cs) \<le> sum_list (map (\<lambda>(s, w, ps). w) cs)"
  by (induction cs) auto

lemma total_weight: "sum_list (map (\<lambda>(section, weight, patterns). weight) QUALITY_CHECKS) = 10"
  by (simp add: QUALITY_CHECKS_def)

lemma weights_nonneg: "\<forall>(s, w, ps) \<in> set QUALITY_CHECKS. 0 \<le> w"
  by (simp add: QUALITY_CHECKS_def)

lemma rint_bounds: "0 \<le> y \<Longrightarrow> y \<le> of_int n \<Longrightarrow> 0 \<le> rint y \<and> rint y \<le> n"
  unfolding rint_def Let_def by (auto; linarith)

lemma py_round_bounds: "0 \<le> x \<Longrightarrow> x \<le> 10 \<Longrightarrow> 0 \<le> py_round x 1 \<and> py_round x 1 \<le> 10"
  using rint_bounds [of "x * 10" 100] by (simp add: py_round_def divide_le_eq)

lemma analyze_nonempty:
  assumes "txt \<noteq> []"
  shows "analyze_resume_quality txt =
     \<lparr>score = py_round ((sum_list (map (\<lambda>(s, w, ps). if section_found ps (lower txt) then w else 0)
                                     QUALITY_CHECKS) / 10) * 10) 1,
      breakdown = map (\<lambda>(s, w, ps). (s, section_found ps (lower txt), w)) QUALITY_CHECKS,
      feedback = map (\<lambda>(s, w, ps). add_section_message s)
                   (filter (\<lambda>(s, w, ps). \<not> section_found ps (lower txt)) QUALITY_CHECKS)\<rparr>"
  using assms by (simp add: analyze_resume_quality_def Let_def quality_loop_eq total_weight)

text \<open>
  C5. For a non-empty text the score is the sum of the weights of the sections with a
  matching pattern, divided by the total weight 10, times 10, rounded to one decimal; it
  lies between 0 and 10; the feedback has one message for each section without a match,
  and the breakdown one entry for each section. The empty text gives score 0, an empty
  breakdown and the single message that no text was found.
\<close>

theorem analyze_resume_quality_score:
  "(txt \<noteq> [] \<longrightarrow>
      score (analyze_resume_quality txt) =
        py_round ((sum_list (map (\<lambda>(section, weight, patterns).
                      if section_found patterns (lower txt) then weight else 0) QUALITY_CHECKS)
                    / 10.0) * 10) 1 \<and>
      0 \<le> score (analyze_resume_quality txt) \<and> score (analyze_resume_quality txt) \<le> 10 \<and>
      feedback (analyze_resume_quality txt) =
        map (\<lambda>(section, weight, patterns). add_section_message section)
          (filter (\<lambda>(section, weight, patterns). \<not> section_found patterns (lower txt)) QUALITY_CHECKS) \<and>
      breakdown (analyze_resume_quality txt) =
        map (\<lambda>(section, weight, patterns). (section, section_found patterns (lower txt), weight))
          QUALITY_CHECKS) \<and>
   analyze_resume_quality [] =
     \<lparr>score = 0, breakdown = [], feedback = [''No text found in resume.'']\<rparr>"
proof -
  let ?e = "sum_list (map (\<lambda>(s, w, ps). if section_found ps (lower txt) then w else 0) QUALITY_CHECKS)"
  have "0 \<le> ?e \<and> ?e \<le> 10"
    using earned_bounds [OF weights_nonneg, of "\<lambda>ps. section_found ps (lower txt)"]
    by (simp add: total_weight)
  then have "0 \<le> py_round ((?e / 10) * 10) 1 \<and> py_round ((?e / 10) * 10) 1 \<le> 10"
    using py_round_bounds [of "(?e / 10) * 10"] by simp
  moreover have "analyze_resume_quality [] =
      \<lparr>score = 0, breakdown = [], feedback = [''No text found in resume.'']\<rparr>"
    by (simp add: analyze_resume_quality_def)
  ultimately show ?thesis
    by (simp add: analyze_nonempty)
qed

lemma example_quality:
  "analyze_resume_quality ''Education: BSc, jane@example.com'' =
     \<lparr>score = 4,
      breakdown = [(''Contact Information'', True, 2), (''Skills Section'', False, 2),
                   (''Education'', True, 2), (''Work Experience'', False, 2),
                   (''Summary / Objective'', False, 1), (''Projects / Certifications'', False, 1)],
      feedback = [add_section_message ''Skills Section'', add_section_message ''Work Experience'',
                  add_section_message ''Summary / Objective'',
                  add_section_message ''Projects / Certifications'']\<rparr>"
  by code_simp

theorem analyze_resume_quality_score_witness:
  "''Education: BSc, jane@example.com'' \<noteq> [] \<and>
   score (analyze_resume_quality ''Education: BSc, jane@example.com'') = 4 \<and>
   0 \<le> score (analyze_resume_quality ''Education: BSc, jane@example.com'') \<and>
   score (analyze_resume_quality ''Education: BSc, jane@example.com'') \<le> 10 \<and>
   length (feedback (analyze_resume_quality ''Education: BSc, jane@example.com'')) = 4"
proof -
  have "''Education: BSc, jane@example.com'' \<noteq> []"
    by simp
  with analyze_resume_quality_score [of "''Education: BSc, jane@example.com''"]
  have "0 \<le> score (analyze_resume_quality ''Education: BSc, jane@example.com'') \<and>
        score (analyze_resume_quality ''Education: BSc, jane@example.com'') \<le> 10"
    by blast
  then show ?thesis
    by (simp add: example_quality)
qed

text \<open>
  C6. The label is total over the scores: the word Excellent for a score of at least 8,
  Good from 6 up to 8, Average from 4 up to 6 and Needs Work below 4, each after the emoji
  and the space that the program puts in front of the word.
\<close>

theorem get_quality_label_ranges:
  "(8 \<le> s \<longrightarrow> get_quality_label s = [CHR 0xF0, CHR 0x9F, CHR 0x8C, CHR 0x9F] @ '' Excellent'') \<and>
   (6 \<le> s \<and> s < 8 \<longrightarrow> get_quality_label s = [CHR 0xE2, CHR 0x9C, CHR 0x85] @ '' Good'') \<and>
   (4 \<le> s \<and> s < 6 \<longrightarrow>
      get_quality_label s = [CHR 0xE2, CHR 0x9A, CHR 0xA0, CHR 0xEF, CHR 0xB8, CHR 0x8F] @ '' Average'') \<and>
   (s < 4 \<longrightarrow> get_quality_label s = [CHR 0xE2, CHR 0x9D, CHR 0x8C] @ '' Needs Work'')"
  by (simp add: get_quality_label_def)

theorem get_quality_label_ranges_witness:
  "(8::real) \<le> 9 \<and> get_quality_label 9 = [CHR 0xF0, CHR 0x9F, CHR 0x8C, CHR 0x9F] @ '' Excellent'' \<and>
   (6::real) \<le> 7 \<and> (7::real) < 8 \<and> get_quality_label 7 = [CHR 0xE2, CHR 0x9C, CHR 0x85] @ '' Good'' \<and>
   (4::real) \<le> 5 \<and> (5::real) < 6 \<and>
   get_quality_label 5 = [CHR 0xE2, CHR 0x9A, CHR 0xA0, CHR 0xEF, CHR 0xB8, CHR 0x8F] @ '' Average'' \<and>
   (3::real) < 4 \<and> get_quality_label 3 = [CHR 0xE2, CHR 0x9D, CHR 0x8C] @ '' Needs Work''"
  using get_quality_label_ranges [of 9] get_quality_label_ranges [of 7]
    get_quality_label_ranges [of 5] get_quality_label_ranges [of 3]
  by simp

text \<open>The label of the score 9 is not the bare word.\<close>

theorem get_quality_label_counterexample: "get_quality_label 9 \<noteq> ''Excellent''"
  by (simp add: get_quality_label_def)

text \<open>
  C4. The pattern of a keyword ends with \<open>\b\<close>, which after the non-word character \<open>+\<close>
  asks for a word character to follow: the text \<open>C++ developer\<close> contains the keyword
  \<open>c++\<close> as a whole word, and \<open>extract_skills\<close> does not return it.
\<close>

theorem extract_skills_cpp: "extract_skills ''C++ developer'' = []"
  by code_simp

text \<open>The scenario of the specification, and a keyword followed by a word character.\<close>

lemma extract_skills_scenario:
  "extract_skills ''Skills: Python, React, AWS, Docker'' = [''Aws'', ''Docker'', ''Python'', ''React'']"
  by code_simp

lemma extract_skills_inside_word:
  "extract_skills ''for her'' = [] \<and> extract_skills ''c++x'' = [''C++'']"
  by code_simp

section \<open>Properties of the similarity\<close>





lemma compute_cosine_similarity_eq:
  "resume_vectors \<noteq> [] \<Longrightarrow>
   compute_cosine_similarity (jd # rest) resume_vectors = Inr (map (cosine jd) resume_vectors)"
  by (simp add: compute_cosine_similarity_def cosine_similarity_def)



section \<open>Properties of the recommendations\<close>

text \<open>
  C9. \<open>get_top_recommendations\<close> takes a prefix of the ranked rows in their order: for
  \<open>top_n \<ge> 0\<close> the first \<open>min(max(top_n, 0), L)\<close> rows, as if \<open>top_n\<close> were clamped to
  \<open>[0, L]\<close>; for a negative \<open>top_n\<close> all rows but the last \<open>-top_n\<close>.
\<close>

theorem get_top_recommendations_prefix:
  "(0 \<le> top_n \<longrightarrow>
      get_top_recommendations df top_n = take (nat (min (max top_n 0) (int (length df)))) df) \<and>
   (top_n < 0 \<longrightarrow> get_top_recommendations df top_n = take (length df - nat (- top_n)) df)"
  by (auto simp: get_top_recommendations_def head_def min_def max_def)

theorem get_top_recommendations_prefix_witness:
  "(0::int) \<le> 2 \<and>
   get_top_recommendations example_ranked 2 = [example_row 1 ''Bob'' 1, example_row 2 ''Ann'' 0.9] \<and>
   (- 1 :: int) < 0 \<and>
   get_top_recommendations example_ranked (- 1) = [example_row 1 ''Bob'' 1, example_row 2 ''Ann'' 0.9]"
  using get_top_recommendations_prefix [of 2 example_ranked]
    get_top_recommendations_prefix [of "- 1" example_ranked]
  by (simp add: example_ranked_def)

text \<open>With \<open>top_n = -1\<close> the result is not the clamped prefix, which is empty.\<close>

theorem get_top_recommendations_counterexample:
  "get_top_recommendations example_ranked (- 1) \<noteq>
     take (nat (min (max (- 1) 0) (int (length example_ranked)))) example_ranked"
  by (simp add: get_top_recommendations_def head_def example_ranked_def)

section \<open>Properties of the ranking\<close>

lemma build_tfidf_matrix_cases:
  "build_tfidf_matrix tfidf documents =
     (if has_vocabulary documents then Inr (map (tfidf documents) documents) else Inl ValueError)"
  by (simp add: build_tfidf_matrix_def has_vocabulary_def)

lemma similarity_scores_of_empty: "similarity_scores_of nltk tfidf jd [] = Inl ValueError"
  by (simp add: similarity_scores_of_def build_tfidf_matrix_def compute_cosine_similarity_def
      cosine_similarity_def Let_def)

lemma similarity_scores_of_total:
  assumes "resumes \<noteq> []" and "has_vocabulary (ranking_corpus nltk jd resumes)"
  shows "\<exists>scores. similarity_scores_of nltk tfidf jd resumes = Inr scores \<and>
           length scores = length resumes"
proof -
  let ?c = "clean_text nltk jd # map (\<lambda>r. clean_text nltk (text r)) resumes"
  have b: "build_tfidf_matrix tfidf ?c = Inr (map (tfidf ?c) ?c)"
    using assms(2) by (simp add: build_tfidf_matrix_cases ranking_corpus_def)
  have d: "map (tfidf ?c) (map (\<lambda>r. clean_text nltk (text r)) resumes) \<noteq> []"
    using assms(1) by simp
  show ?thesis
    unfolding similarity_scores_of_def Let_def b
    using compute_cosine_similarity_eq [OF d, of "tfidf ?c (clean_text nltk jd)" "[]"]
    by simp
qed

lemma results_frame_Inr:
  assumes "results_frame resumes scores = Inr df"
  shows "length scores = length resumes \<and> length df = length resumes \<and>
     map fst df = [0 ..< length resumes] \<and>
     (\<forall>k < length resumes.
        Candidate_Name (snd (df ! k)) = name (resumes ! k) \<and>
        Similarity_Score (snd (df ! k)) = py_round (scores ! k) 4 \<and>
        Quality_Score (snd (df ! k)) = score (analyze_resume_quality (text (resumes ! k))) \<and>
        quality_detail (snd (df ! k)) = analyze_resume_quality (text (resumes ! k)))"
  using assms
  by (auto simp: results_frame_def results_rows_def DataFrame_def Let_def split: if_splits)

lemma results_frame_total:
  "length scores = length resumes \<Longrightarrow> \<exists>df. results_frame resumes scores = Inr df"
  by (simp add: results_frame_def results_rows_def Let_def)

lemma length_insert_stable: "length (insert_stable x ys) = Suc (length ys)"
  by (induction ys) auto

lemma set_insert_stable: "set (insert_stable x ys) = insert x (set ys)"
  by (induction ys) auto

lemma length_sort_values: "length (sort_values df) = length df"
  unfolding sort_values_def by (induction df) (auto simp: length_insert_stable)

lemma set_sort_values: "set (sort_values df) = set df"
  unfolding sort_values_def by (induction df) (auto simp: set_insert_stable)

lemma distinct_insert_stable:
  "distinct (map fst (insert_stable x ys)) = (fst x \<notin> fst ` set ys \<and> distinct (map fst ys))"
  by (induction ys) (auto simp: set_insert_stable)

lemma distinct_sort_values: "distinct (map fst df) \<Longrightarrow> distinct (map fst (sort_values df))"
  unfolding sort_values_def
proof (induction df)
  case Nil
  then show ?case by simp
next
  case (Cons x df)
  have "set (foldr insert_stable df []) = set df"
    using set_sort_values [of df] by (simp add: sort_values_def)
  with Cons show ?case
    by (simp add: distinct_insert_stable)
qed

text \<open>The order of the sorted frame: the keys of \<open>x\<close> come strictly first, or the keys are
  equal and \<open>x\<close> has the smaller index label.\<close>

lemma sorted_insert_stable:
  assumes "sorted_wrt (\<lambda>x y. goes_before (snd x) (snd y) \<or>
              (\<not> goes_before (snd y) (snd x) \<and> fst x < fst y)) ys"
    and "\<forall>y \<in> set ys. fst x < fst y"
  shows "sorted_wrt (\<lambda>x y. goes_before (snd x) (snd y) \<or>
              (\<not> goes_before (snd y) (snd x) \<and> fst x < fst y)) (insert_stable x ys)"
  using assms
proof (induction ys)
  case Nil
  then show ?case by simp
next
  case (Cons y ys)
  show ?case
  proof (cases "goes_before (snd y) (snd x)")
    case True
    with Cons show ?thesis
      by (auto simp: set_insert_stable)
  next
    case False
    have "goes_before (snd x) (snd z) \<or> \<not> goes_before (snd z) (snd x)" if "z \<in> set ys" for z
      using Cons.prems(1) False that by (auto simp: goes_before_def)
    with Cons.prems False show ?thesis
      by auto
  qed
qed

lemma sorted_sort_values:
  assumes "sorted_wrt (\<lambda>x y. fst x < fst y) df"
  shows "sorted_wrt (\<lambda>x y. goes_before (snd x) (snd y) \<or>
              (\<not> goes_before (snd y) (snd x) \<and> fst x < fst y)) (sort_values df)"
  using assms unfolding sort_values_def
proof (induction df)
  case Nil
  then show ?case by simp
next
  case (Cons x df)
  have "set (foldr insert_stable df []) = set df"
    using set_sort_values [of df] by (simp add: sort_values_def)
  with Cons show ?case
    by (simp add: sorted_insert_stable)
qed

lemma insert_Rank_reset_index:
  "length (insert_Rank (reset_index sf)) = length sf \<and>
   (\<forall>i < length sf. insert_Rank (reset_index sf) ! i = (i, \<lparr>Rank = i + 1, columns = snd (sf ! i)\<rparr>))"
  by (simp add: insert_Rank_def reset_index_def del: upt_Suc)

lemma rank_candidates_Inr:
  assumes "rank_candidates nltk tfidf jd resumes = Inr out"
  shows "\<exists>scores df. similarity_scores_of nltk tfidf jd resumes = Inr scores \<and>
           results_frame resumes scores = Inr df \<and>
           out = insert_Rank (reset_index (sort_values df))"
  using assms by (auto simp: rank_candidates_def split: sum.splits)

text \<open>
  C8. With an empty list of resumes \<open>rank_candidates\<close> returns no result set: the call of
  \<open>cosine_similarity\<close> on a matrix without rows raises \<open>ValueError\<close> (or the vectorizer
  does, when the job description yields no term). The caller checks that the list is not
  empty before it calls \<open>rank_candidates\<close>.
\<close>

theorem rank_candidates_empty_raises: "rank_candidates nltk tfidf jd [] = Inl ValueError"
  by (simp add: rank_candidates_def similarity_scores_of_empty)

text \<open>For the job description \<open>Python developer\<close> the result is not the empty result set.\<close>

theorem rank_candidates_empty_counterexample:
  "rank_candidates None example_tfidf ''Python developer'' [] \<noteq> Inr []"
  by (simp add: rank_candidates_def similarity_scores_of_empty)

lemma rank_candidates_total:
  assumes "resumes \<noteq> []" and "has_vocabulary (ranking_corpus nltk jd resumes)"
  shows "\<exists>scores df. similarity_scores_of nltk tfidf jd resumes = Inr scores \<and>
           results_frame resumes scores = Inr df \<and>
           rank_candidates nltk tfidf jd resumes = Inr (insert_Rank (reset_index (sort_values df)))"
proof -
  from similarity_scores_of_total [OF assms]
  obtain scores where s: "similarity_scores_of nltk tfidf jd resumes = Inr scores"
    "length scores = length resumes"
    by blast
  from results_frame_total [OF s(2)]
  obtain df where d: "results_frame resumes scores = Inr df"
    by blast
  have "rank_candidates nltk tfidf jd resumes = Inr (insert_Rank (reset_index (sort_values df)))"
    by (simp add: rank_candidates_def s(1) d)
  with s(1) d show ?thesis
    by blast
qed

lemma ranks_of_frame:
  "map (\<lambda>x. Rank (snd x)) (insert_Rank (reset_index sf)) = [1 ..< length sf + 1] \<and>
   map fst (insert_Rank (reset_index sf)) = [0 ..< length sf]"
proof
  show "map (\<lambda>x. Rank (snd x)) (insert_Rank (reset_index sf)) = [1 ..< length sf + 1]"
  proof (rule nth_equalityI)
    show "length (map (\<lambda>x. Rank (snd x)) (insert_Rank (reset_index sf))) = length [1 ..< length sf + 1]"
      using insert_Rank_reset_index [of sf] by (simp del: upt_Suc)
  next
    fix i
    assume "i < length (map (\<lambda>x. Rank (snd x)) (insert_Rank (reset_index sf)))"
    then have "i < length sf"
      using insert_Rank_reset_index [of sf] by simp
    then show "map (\<lambda>x. Rank (snd x)) (insert_Rank (reset_index sf)) ! i = [1 ..< length sf + 1] ! i"
      using insert_Rank_reset_index [of sf] by (simp del: upt_Suc)
  qed
next
  show "map fst (insert_Rank (reset_index sf)) = [0 ..< length sf]"
  proof (rule nth_equalityI)
    show "length (map fst (insert_Rank (reset_index sf))) = length [0 ..< length sf]"
      using insert_Rank_reset_index [of sf] by simp
  next
    fix i
    assume "i < length (map fst (insert_Rank (reset_index sf)))"
    then have "i < length sf"
      using insert_Rank_reset_index [of sf] by simp
    then show "map fst (insert_Rank (reset_index sf)) ! i = [0 ..< length sf] ! i"
      using insert_Rank_reset_index [of sf] by (simp del: upt_Suc)
  qed
qed

text \<open>
  C2. For a non-empty list of \<open>N\<close> resumes whose corpus (job description and resumes,
  cleaned) yields at least one term, \<open>rank_candidates\<close> returns exactly \<open>N\<close> rows, and the
  ranks of the rows are \<open>1, ..., N\<close> in the order of the rows, whatever the scores are.
\<close>

theorem rank_candidates_ranks:
  assumes "resumes \<noteq> []" and "has_vocabulary (ranking_corpus nltk jd resumes)"
  shows "\<exists>out. rank_candidates nltk tfidf jd resumes = Inr out \<and>
           length out = length resumes \<and>
           map (\<lambda>x. Rank (snd x)) out = [1 ..< length resumes + 1] \<and>
           map fst out = [0 ..< length resumes]"
proof -
  from rank_candidates_total [OF assms]
  obtain scores df where r: "results_frame resumes scores = Inr df"
    "rank_candidates nltk tfidf jd resumes = Inr (insert_Rank (reset_index (sort_values df)))"
    by blast
  have "length (sort_values df) = length resumes"
    using results_frame_Inr [OF r(1)] by (simp add: length_sort_values)
  with r(2) ranks_of_frame [of "sort_values df"] insert_Rank_reset_index [of "sort_values df"]
  show ?thesis
    by simp
qed

lemma example_corpus:
  "ranking_corpus None ''alpha'' example_resumes = [''alpha'', ''beta'', ''alpha'', ''beta'', []]"
  by code_simp

lemma example_has_vocabulary: "has_vocabulary (ranking_corpus None ''alpha'' example_resumes)"
  by code_simp

lemma example_nonempty: "example_resumes \<noteq> []"
  by (simp add: example_resumes_def)

theorem rank_candidates_ranks_witness:
  "example_resumes \<noteq> [] \<and> has_vocabulary (ranking_corpus None ''alpha'' example_resumes) \<and>
   (\<exists>out. rank_candidates None example_tfidf ''alpha'' example_resumes = Inr out \<and>
      length out = 4 \<and> map (\<lambda>x. Rank (snd x)) out = [1, 2, 3, 4])"
proof -
  from rank_candidates_ranks [OF example_nonempty example_has_vocabulary, of example_tfidf]
  obtain out where o: "rank_candidates None example_tfidf ''alpha'' example_resumes = Inr out"
    "length out = length example_resumes"
    "map (\<lambda>x. Rank (snd x)) out = [1 ..< length example_resumes + 1]"
    by blast
  have "length example_resumes = 4"
    by (simp add: example_resumes_def)
  moreover have "[1 ..< 5] = [1, 2, 3, 4::nat]"
    by (simp add: upt_rec)
  ultimately show ?thesis
    using o example_nonempty example_has_vocabulary by simp
qed

text \<open>Two inputs on which no rows are returned: one resume without text under an empty
  job description (the vocabulary is empty), and no resume at all.\<close>

theorem rank_candidates_ranks_counterexample:
  "rank_candidates None example_tfidf [] [\<lparr>name = ''Ann'', text = []\<rparr>] = Inl ValueError \<and>
   rank_candidates None example_tfidf ''alpha'' [] = Inl ValueError"
proof -
  have "analyzer [] = []"
    by code_simp
  then have "similarity_scores_of None example_tfidf [] [\<lparr>name = ''Ann'', text = []\<rparr>] = Inl ValueError"
    by (simp add: similarity_scores_of_def build_tfidf_matrix_def clean_text_def)
  then show ?thesis
    by (simp add: rank_candidates_def similarity_scores_of_empty)
qed

lemma frame_member:
  assumes "map fst df = [0 ..< n]" and "x \<in> set df"
  shows "fst x < n \<and> df ! fst x = x"
proof -
  from assms(2) obtain k where k: "k < length df" "df ! k = x"
    by (auto simp: in_set_conv_nth)
  have "length df = n"
    using assms(1) by (metis length_map length_upt diff_zero)
  moreover have "map fst df ! k = fst (df ! k)"
    using k(1) by simp
  ultimately have "fst x = k"
    using assms(1) k by simp
  with k \<open>length df = n\<close> show ?thesis
    by simp
qed

lemma order_of_keys:
  assumes "goes_before a b \<or> (\<not> goes_before b a \<and> (m::nat) < n)"
  shows "Similarity_Score a > Similarity_Score b \<or>
     (Similarity_Score a = Similarity_Score b \<and> Quality_Score a > Quality_Score b) \<or>
     (Similarity_Score a = Similarity_Score b \<and> Quality_Score a = Quality_Score b \<and> m < n)"
  using assms by (auto simp: goes_before_def)

text \<open>
  C1. The rows that \<open>rank_candidates\<close> returns are the rows of the resumes in an order
  \<open>p\<close> (row \<open>i\<close> of the result belongs to resume \<open>p ! i\<close> of the input), and for all
  positions \<open>i < j\<close> the similarity score of row \<open>i\<close> is greater, or the similarity scores
  are equal and the quality score of row \<open>i\<close> is greater, or both scores are equal and the
  resume of row \<open>i\<close> comes before the resume of row \<open>j\<close> in the input.
\<close>

theorem rank_candidates_sorted:
  assumes "rank_candidates nltk tfidf jd resumes = Inr out"
  shows "\<exists>scores p.
     similarity_scores_of nltk tfidf jd resumes = Inr scores \<and>
     length p = length out \<and> distinct p \<and>
     (\<forall>i < length out.
        p ! i < length resumes \<and>
        Candidate_Name (columns (snd (out ! i))) = name (resumes ! (p ! i)) \<and>
        Similarity_Score (columns (snd (out ! i))) = py_round (scores ! (p ! i)) 4 \<and>
        Quality_Score (columns (snd (out ! i))) =
          score (analyze_resume_quality (text (resumes ! (p ! i))))) \<and>
     (\<forall>i j. i < j \<and> j < length out \<longrightarrow>
        Similarity_Score (columns (snd (out ! i))) > Similarity_Score (columns (snd (out ! j))) \<or>
        (Similarity_Score (columns (snd (out ! i))) = Similarity_Score (columns (snd (out ! j))) \<and>
         Quality_Score (columns (snd (out ! i))) > Quality_Score (columns (snd (out ! j)))) \<or>
        (Similarity_Score (columns (snd (out ! i))) = Similarity_Score (columns (snd (out ! j))) \<and>
         Quality_Score (columns (snd (out ! i))) = Quality_Score (columns (snd (out ! j))) \<and>
         p ! i < p ! j))"
proof -
  from rank_candidates_Inr [OF assms]
  obtain scores df where s: "similarity_scores_of nltk tfidf jd resumes = Inr scores"
    and d: "results_frame resumes scores = Inr df"
    and o: "out = insert_Rank (reset_index (sort_values df))"
    by blast
  let ?sf = "sort_values df"
  let ?p = "map fst ?sf"
  note F = results_frame_Inr [OF d]
  have idx: "map fst df = [0 ..< length resumes]"
    using F by simp
  have len: "length out = length ?sf"
    using o insert_Rank_reset_index [of ?sf] by simp
  have row: "columns (snd (out ! i)) = snd (?sf ! i)" if "i < length ?sf" for i
    using o insert_Rank_reset_index [of ?sf] that by simp
  have "distinct (map fst df)"
    using idx by simp
  then have dist: "distinct ?p"
    by (rule distinct_sort_values)
  have mem: "fst (?sf ! i) < length resumes \<and> df ! fst (?sf ! i) = ?sf ! i" if "i < length ?sf" for i
  proof -
    have "?sf ! i \<in> set df"
      using that set_sort_values [of df] nth_mem by blast
    with frame_member [OF idx] show ?thesis
      by blast
  qed
  have "sorted_wrt (\<lambda>x y. fst x < fst y) df"
    using idx sorted_wrt_map [of "(<)" fst df] by simp
  then have srt: "sorted_wrt (\<lambda>x y. goes_before (snd x) (snd y) \<or>
              (\<not> goes_before (snd y) (snd x) \<and> fst x < fst y)) ?sf"
    by (rule sorted_sort_values)
  have rows: "p ! i < length resumes \<and>
        Candidate_Name (columns (snd (out ! i))) = name (resumes ! (p ! i)) \<and>
        Similarity_Score (columns (snd (out ! i))) = py_round (scores ! (p ! i)) 4 \<and>
        Quality_Score (columns (snd (out ! i))) =
          score (analyze_resume_quality (text (resumes ! (p ! i))))"
    if "i < length out" and "p = ?p" for i p
  proof -
    have i: "i < length ?sf"
      using that len by simp
    have pi: "p ! i = fst (?sf ! i)"
      using i that by simp
    from mem [OF i] have k: "p ! i < length resumes" "snd (?sf ! i) = snd (df ! (p ! i))"
      using pi by simp_all
    from F k(1) show ?thesis
      using row [OF i] k by simp
  qed
  have ord: "Similarity_Score (columns (snd (out ! i))) > Similarity_Score (columns (snd (out ! j))) \<or>
        (Similarity_Score (columns (snd (out ! i))) = Similarity_Score (columns (snd (out ! j))) \<and>
         Quality_Score (columns (snd (out ! i))) > Quality_Score (columns (snd (out ! j)))) \<or>
        (Similarity_Score (columns (snd (out ! i))) = Similarity_Score (columns (snd (out ! j))) \<and>
         Quality_Score (columns (snd (out ! i))) = Quality_Score (columns (snd (out ! j))) \<and>
         ?p ! i < ?p ! j)"
    if "i < j" and "j < length out" for i j
  proof -
    have j: "j < length ?sf" and i: "i < length ?sf"
      using that len by simp_all
    from sorted_wrt_nth_less [OF srt that(1) j]
    have "goes_before (snd (?sf ! i)) (snd (?sf ! j)) \<or>
          (\<not> goes_before (snd (?sf ! j)) (snd (?sf ! i)) \<and> fst (?sf ! i) < fst (?sf ! j))" .
    from order_of_keys [OF this] show ?thesis
      using row [OF i] row [OF j] i j by simp
  qed
  have "length ?p = length out"
    using len by simp
  with s dist rows ord show ?thesis
    by blast
qed

lemma example_scores:
  "similarity_scores_of None example_tfidf ''alpha'' example_resumes =
     Inr [25276 / 28085, 1, 25276 / 28085, 0]"
proof -
  have c: "clean_text None ''alpha'' # map (\<lambda>r. clean_text None (text r)) example_resumes =
      [''alpha'', ''beta'', ''alpha'', ''beta'', []]"
    using example_corpus by (simp add: ranking_corpus_def)
  have h: "has_vocabulary [''alpha'', ''beta'', ''alpha'', ''beta'', []]"
    using example_has_vocabulary by (simp add: example_corpus)
  show ?thesis
    unfolding similarity_scores_of_def Let_def c
    by (simp add: build_tfidf_matrix_cases h example_tfidf_def compute_cosine_similarity_eq
        cosine_def normalize_l2_def dot_def)
qed

lemma example_rounded:
  "py_round (25276 / 28085) 4 = 9 / 10 \<and> py_round 1 4 = 1 \<and> py_round 0 4 = 0"
  by (simp add: py_round_def rint_def Let_def)

lemma example_qualities:
  "score (analyze_resume_quality ''beta'') = 0 \<and> score (analyze_resume_quality ''alpha'') = 0 \<and>
   score (analyze_resume_quality []) = 0"
  by code_simp

lemma example_upt: "[0 ..< 4] = [0, 1, 2, 3::nat] \<and> [1 ..< 5] = [1, 2, 3, 4::nat]"
  by (simp add: upt_rec)

lemma example_ranking:
  "\<exists>r1 r2 r3 r4.
     rank_candidates None example_tfidf ''alpha'' example_resumes =
       Inr [(0, \<lparr>Rank = 1, columns = r1\<rparr>), (1, \<lparr>Rank = 2, columns = r2\<rparr>),
            (2, \<lparr>Rank = 3, columns = r3\<rparr>), (3, \<lparr>Rank = 4, columns = r4\<rparr>)] \<and>
     Candidate_Name r1 = ''Bob'' \<and> Similarity_Score r1 = 1 \<and> Quality_Score r1 = 0 \<and>
     Candidate_Name r2 = ''Ann'' \<and> Similarity_Score r2 = 9 / 10 \<and> Quality_Score r2 = 0 \<and>
     Candidate_Name r3 = ''Cy'' \<and> Similarity_Score r3 = 9 / 10 \<and> Quality_Score r3 = 0 \<and>
     Candidate_Name r4 = ''Dee'' \<and> Similarity_Score r4 = 0 \<and> Quality_Score r4 = 0"
  unfolding rank_candidates_def example_scores
  by (simp add: results_frame_def results_rows_def DataFrame_def Let_def example_resumes_def
      example_upt example_rounded example_qualities sort_values_def goes_before_def
      insert_Rank_def reset_index_def)

text \<open>The example: Ann and Cy tie on both scores and keep the order of the input; row 1 of
  the result is Ann (resume 0) and row 2 is Cy (resume 2).\<close>

theorem rank_candidates_sorted_witness:
  "\<exists>out p. rank_candidates None example_tfidf ''alpha'' example_resumes = Inr out \<and>
     map (\<lambda>x. Candidate_Name (columns (snd x))) out = [''Bob'', ''Ann'', ''Cy'', ''Dee''] \<and>
     (1::nat) < 2 \<and> 2 < length out \<and>
     Similarity_Score (columns (snd (out ! 1))) = Similarity_Score (columns (snd (out ! 2))) \<and>
     Quality_Score (columns (snd (out ! 1))) = Quality_Score (columns (snd (out ! 2))) \<and>
     length p = length out \<and>
     name (example_resumes ! (p ! 1)) = ''Ann'' \<and> name (example_resumes ! (p ! 2)) = ''Cy'' \<and>
     p ! 1 < p ! 2"
proof -
  from example_ranking obtain r1 r2 r3 r4 where
    o: "rank_candidates None example_tfidf ''alpha'' example_resumes =
       Inr [(0, \<lparr>Rank = 1, columns = r1\<rparr>), (1, \<lparr>Rank = 2, columns = r2\<rparr>),
            (2, \<lparr>Rank = 3, columns = r3\<rparr>), (3, \<lparr>Rank = 4, columns = r4\<rparr>)]"
    and f: "Candidate_Name r1 = ''Bob''" "Candidate_Name r2 = ''Ann''" "Candidate_Name r3 = ''Cy''"
      "Candidate_Name r4 = ''Dee''" "Similarity_Score r2 = 9 / 10" "Similarity_Score r3 = 9 / 10"
      "Quality_Score r2 = 0" "Quality_Score r3 = 0"
    by blast
  define out where "out = [(0::nat, \<lparr>Rank = 1, columns = r1\<rparr>), (1, \<lparr>Rank = 2, columns = r2\<rparr>),
            (2, \<lparr>Rank = 3, columns = r3\<rparr>), (3, \<lparr>Rank = 4, columns = r4\<rparr>)]"
  have o': "rank_candidates None example_tfidf ''alpha'' example_resumes = Inr out"
    using o by (simp add: out_def)
  have l: "length out = 4"
    by (simp add: out_def)
  have c: "columns (snd (out ! 1)) = r2" "columns (snd (out ! 2)) = r3"
    by (simp_all add: out_def)
  have n: "map (\<lambda>x. Candidate_Name (columns (snd x))) out = [''Bob'', ''Ann'', ''Cy'', ''Dee'']"
    using f by (simp add: out_def)
  from rank_candidates_sorted [OF o']
  obtain scores p where p: "length p = length out"
    and r: "\<forall>i < length out. p ! i < length example_resumes \<and>
        Candidate_Name (columns (snd (out ! i))) = name (example_resumes ! (p ! i)) \<and>
        Similarity_Score (columns (snd (out ! i))) = py_round (scores ! (p ! i)) 4 \<and>
        Quality_Score (columns (snd (out ! i))) =
          score (analyze_resume_quality (text (example_resumes ! (p ! i))))"
    and s: "\<forall>i j. i < j \<and> j < length out \<longrightarrow>
        Similarity_Score (columns (snd (out ! i))) > Similarity_Score (columns (snd (out ! j))) \<or>
        (Similarity_Score (columns (snd (out ! i))) = Similarity_Score (columns (snd (out ! j))) \<and>
         Quality_Score (columns (snd (out ! i))) > Quality_Score (columns (snd (out ! j)))) \<or>
        (Similarity_Score (columns (snd (out ! i))) = Similarity_Score (columns (snd (out ! j))) \<and>
         Quality_Score (columns (snd (out ! i))) = Quality_Score (columns (snd (out ! j))) \<and>
         p ! i < p ! j)"
    by blast
  from s [rule_format, of 1 2] l c f have lt: "p ! 1 < p ! 2"
    by simp
  from r [rule_format, of 1] l c f have n1: "name (example_resumes ! (p ! 1)) = ''Ann''"
    by simp
  from r [rule_format, of 2] l c f have n2: "name (example_resumes ! (p ! 2)) = ''Cy''"
    by simp
  have e: "Similarity_Score (columns (snd (out ! 1))) = Similarity_Score (columns (snd (out ! 2)))"
    "Quality_Score (columns (snd (out ! 1))) = Quality_Score (columns (snd (out ! 2)))"
    using c f by simp_all
  show ?thesis
    apply (rule exI [of _ out])
    apply (rule exI [of _ p])
    using o' n e p n1 n2 lt l apply simp
    done
qed

section \<open>Properties of the duplicate detection\<close>

lemma concat_map_if:
  "concat (map (\<lambda>x. if P x then [f x] else []) xs) = map f (filter P xs)"
  by (induction xs) auto





















end
